theory Spec2Isabelle
  imports Complex_Main "HOL-Library.Multiset"
begin

section \<open>JavaScript values used by the components\<close>

text \<open>
  Amounts arrive as JSON numbers. They are modelled as exact rationals: the binary64
  rounding of each arithmetic step is not part of this development. The non-finite
  results that JavaScript division produces are kept, because HOL's own division
  returns 0 on a zero divisor where JavaScript returns NaN or an infinity.
\<close>

datatype jsnum = Finite rat | NaN | PosInfinity | NegInfinity

text \<open>\<open>a / b\<close> on two finite numbers.\<close>

definition js_div :: "rat \<Rightarrow> rat \<Rightarrow> jsnum" where
  "js_div a b =
     (if b = 0 then (if a = 0 then NaN else if 0 < a then PosInfinity else NegInfinity)
      else Finite (a / b))"

text \<open>\<open>x * c\<close> for a finite constant \<open>c\<close>.\<close>

definition js_times :: "jsnum \<Rightarrow> rat \<Rightarrow> jsnum" where
  "js_times x c =
     (case x of
        Finite a \<Rightarrow> Finite (a * c)
      | NaN \<Rightarrow> NaN
      | PosInfinity \<Rightarrow> (if c = 0 then NaN else if 0 < c then PosInfinity else NegInfinity)
      | NegInfinity \<Rightarrow> (if c = 0 then NaN else if 0 < c then NegInfinity else PosInfinity))"

definition digit_char :: "nat \<Rightarrow> char" where
  "digit_char d = ''0123456789'' ! d"

fun decimal :: "nat \<Rightarrow> string" where
  "decimal n = (if n < 10 then [digit_char n] else decimal (n div 10) @ [digit_char (n mod 10)])"

declare decimal.simps [simp del]

text \<open>
  \<open>Number.prototype.toFixed(f)\<close>: a non-finite receiver gives its \<open>toString\<close>; a
  finite one is rounded to the integer \<open>n\<close> with \<open>n / 10^f\<close> nearest to the magnitude,
  the larger \<open>n\<close> on a tie, and printed with \<open>f\<close> digits after the point. For a
  magnitude of \<open>10^21\<close> or more the method falls back to the exponent notation of
  \<open>toString\<close>, which depends on the binary64 digits; that result is \<open>None\<close> here.
\<close>

definition toFixed_n :: "nat \<Rightarrow> rat \<Rightarrow> nat" where
  "toFixed_n f x = nat \<lfloor>x * 10 ^ f + 1 / 2\<rfloor>"

definition toFixed_digits :: "nat \<Rightarrow> nat \<Rightarrow> string" where
  "toFixed_digits f n =
     (let m = decimal n;
          m = (if f \<noteq> 0 \<and> length m \<le> f then replicate (f + 1 - length m) (CHR ''0'') @ m else m);
          k = length m
      in if f \<noteq> 0 then take (k - f) m @ ''.'' @ drop (k - f) m else m)"

definition toFixed :: "nat \<Rightarrow> jsnum \<Rightarrow> string option" where
  "toFixed f v =
     (case v of
        NaN \<Rightarrow> Some ''NaN''
      | PosInfinity \<Rightarrow> Some ''Infinity''
      | NegInfinity \<Rightarrow> Some ''-Infinity''
      | Finite x \<Rightarrow>
          (let s = (if x < 0 then ''-'' else ''''); x = (if x < 0 then - x else x)
           in if 10 ^ 21 \<le> x then None
              else Some (s @ toFixed_digits f (toFixed_n f x))))"

section \<open>Transactions and the statement\<close>

text \<open>
  A transaction object of the parsed statement. The synthetic chart item pushed by the
  analytics component is an object with only \<open>description\<close> and \<open>amount\<close>; its other
  properties are absent, which is \<open>None\<close>.
\<close>

record transaction =
  date :: "string option"
  description :: string
  amount :: rat
  txn_type :: "string option"

datatype jsval = Null | Undefined | Number rat

record statement =
  bank_name :: "string option"
  card_number :: "string option"
  statement_date :: "string option"
  payment_due_date :: "string option"
  credit_limit :: jsval
  total_amount_due :: jsval
  minimum_amount_due :: jsval
  available_credit :: jsval
  transactions :: "transaction list option"

section \<open>DonutAnalytics: the spending breakdown\<close>

text \<open>
  \<open>Array.prototype.sort\<close> with a comparator is stable; with a consistent comparator
  every stable sort returns the same array, so a stable insertion sort stands for it.
  An element goes in front of the first element it does not compare greater than.
\<close>

fun insert_by :: "('a \<Rightarrow> 'a \<Rightarrow> rat) \<Rightarrow> 'a \<Rightarrow> 'a list \<Rightarrow> 'a list" where
  "insert_by cmp x [] = [x]"
| "insert_by cmp x (y # ys) = (if cmp x y \<le> 0 then x # y # ys else y # insert_by cmp x ys)"

definition sort_by :: "('a \<Rightarrow> 'a \<Rightarrow> rat) \<Rightarrow> 'a list \<Rightarrow> 'a list" where
  "sort_by cmp xs = foldr (insert_by cmp) xs []"

definition debitTransactions :: "transaction list \<Rightarrow> transaction list" where
  "debitTransactions txs =
     sort_by (\<lambda>a b. amount b - amount a) (filter (\<lambda>t. txn_type t = Some ''debit'') txs)"

definition topItems :: "transaction list \<Rightarrow> transaction list" where
  "topItems debits = take 4 debits"

definition otherItems :: "transaction list \<Rightarrow> transaction list" where
  "otherItems debits = drop 4 debits"

definition otherItemsSum :: "transaction list \<Rightarrow> rat" where
  "otherItemsSum debits = foldl (\<lambda>sum t. sum + amount t) 0 (otherItems debits)"

definition chartItems :: "transaction list \<Rightarrow> transaction list" where
  "chartItems debits =
     (if length (otherItems debits) > 0
      then topItems debits @
           [\<lparr>date = None, description = ''Others'', amount = otherItemsSum debits, txn_type = None\<rparr>]
      else topItems debits)"

definition totalSpent :: "transaction list \<Rightarrow> rat" where
  "totalSpent debits = foldl (\<lambda>sum t. sum + amount t) 0 debits"

text \<open>The legend's \<open>((item.amount / totalSpent) * 100).toFixed(1)\<close>.\<close>

definition percentage :: "rat \<Rightarrow> transaction \<Rightarrow> string option" where
  "percentage spent item = toFixed 1 (js_times (js_div (amount item) spent) 100)"

record legend_item =
  legend_description :: string
  legend_percentage :: "string option"

text \<open>
  What the component returns: \<open>null\<close>, the information message, or the chart with its
  labels, its data, the total that the centre text formats, and the legend rows. Of a
  legend row the description and the percentage are kept; its colour and the text of its
  amount are left out.
\<close>

datatype donut_view =
    RendersNull
  | NoSpendingMessage
  | DonutChart (chart_labels: "string list") (chart_data: "rat list")
      (center_total: rat) (legend: "legend_item list")

definition DonutAnalytics :: "statement option \<Rightarrow> donut_view" where
  "DonutAnalytics data =
     (case data of
        None \<Rightarrow> RendersNull
      | Some d \<Rightarrow>
          (case transactions d of
             None \<Rightarrow> RendersNull
           | Some txs \<Rightarrow>
               if length txs = 0 then RendersNull
               else let debits = debitTransactions txs in
                 if length debits = 0 then NoSpendingMessage
                 else DonutChart
                        (map description (chartItems debits))
                        (map amount (chartItems debits))
                        (totalSpent debits)
                        (map (\<lambda>item. \<lparr>legend_description = description item,
                                        legend_percentage = percentage (totalSpent debits) item\<rparr>)
                             (chartItems debits))))"

text \<open>
  The same computation with the arrays in a store, to follow which array each method
  writes. A reference is an index into the store; \<open>filter\<close>, \<open>slice\<close> and the spread
  copy allocate a new array, \<open>sort\<close> and \<open>push\<close> write the array they are called on.
\<close>

type_synonym ref = nat

type_synonym store = "transaction list list"

definition alloc :: "store \<Rightarrow> transaction list \<Rightarrow> store \<times> ref" where
  "alloc h xs = (h @ [xs], length h)"

definition array_filter :: "store \<Rightarrow> ref \<Rightarrow> (transaction \<Rightarrow> bool) \<Rightarrow> store \<times> ref" where
  "array_filter h r p = alloc h (filter p (h ! r))"

definition array_sort :: "store \<Rightarrow> ref \<Rightarrow> (transaction \<Rightarrow> transaction \<Rightarrow> rat) \<Rightarrow> store \<times> ref" where
  "array_sort h r cmp = (h[r := sort_by cmp (h ! r)], r)"

definition array_slice :: "store \<Rightarrow> ref \<Rightarrow> nat \<Rightarrow> nat option \<Rightarrow> store \<times> ref" where
  "array_slice h r start stop =
     (case stop of
        None \<Rightarrow> alloc h (drop start (h ! r))
      | Some e \<Rightarrow> alloc h (drop start (take e (h ! r))))"

definition array_spread :: "store \<Rightarrow> ref \<Rightarrow> store \<times> ref" where
  "array_spread h r = alloc h (h ! r)"

definition array_push :: "store \<Rightarrow> ref \<Rightarrow> transaction \<Rightarrow> store" where
  "array_push h r x = h[r := h ! r @ [x]]"

text \<open>
  Lines 16 to 37 of the component on the store: the result is the final store with the
  references held by \<open>debitTransactions\<close> and \<open>chartItems\<close>.
\<close>

definition aggregate_in_store :: "store \<Rightarrow> ref \<Rightarrow> store \<times> ref \<times> ref" where
  "aggregate_in_store h txs =
     (let (h1, filtered) = array_filter h txs (\<lambda>t. txn_type t = Some ''debit'');
          (h2, debits) = array_sort h1 filtered (\<lambda>a b. amount b - amount a);
          (h3, top) = array_slice h2 debits 0 (Some 4);
          (h4, others) = array_slice h3 debits 4 None;
          otherSum = foldl (\<lambda>sum t. sum + amount t) 0 (h4 ! others);
          (h5, chart) = array_spread h4 top;
          h6 = (if length (h5 ! others) > 0
                then array_push h5 chart
                       \<lparr>date = None, description = ''Others'', amount = otherSum, txn_type = None\<rparr>
                else h5)
      in (h6, debits, chart))"

section \<open>ResultsDisplay: the currency helper and the detail view\<close>

text \<open>
  Strings are byte lists, so the rupee sign U+20B9 is its three UTF-8 bytes.
\<close>

definition rupee :: string where
  "rupee = [CHR 0xE2, CHR 0x82, CHR 0xB9]"

text \<open>
  \<open>toLocaleString('en-IN', {minimumFractionDigits: 2, maximumFractionDigits: 2})\<close>:
  the magnitude is rounded to hundredths, ties away from zero; the integer digits are
  grouped the Indian way, the last three and then pairs; a negative number keeps its sign.
\<close>

fun group_pairs :: "string \<Rightarrow> string" where
  "group_pairs [] = []"
| "group_pairs [a] = [CHR '','', a]"
| "group_pairs (a # b # r) = CHR '','' # a # b # group_pairs r"

definition group_en_IN :: "string \<Rightarrow> string" where
  "group_en_IN ds = rev (take 3 (rev ds) @ group_pairs (drop 3 (rev ds)))"

definition toLocaleString_en_IN_2 :: "rat \<Rightarrow> string" where
  "toLocaleString_en_IN_2 x =
     (let s = (if x < 0 then ''-'' else '''');
          n = nat \<lfloor>\<bar>x\<bar> * 100 + 1 / 2\<rfloor>
      in s @ group_en_IN (decimal (n div 100)) @ ''.'' @
         [digit_char (n mod 100 div 10), digit_char (n mod 10)])"

definition formatCurrency :: "jsval \<Rightarrow> string" where
  "formatCurrency amt =
     (case amt of
        Null \<Rightarrow> ''N/A''
      | Undefined \<Rightarrow> ''N/A''
      | Number x \<Rightarrow> rupee @ toLocaleString_en_IN_2 x)"

text \<open>\<open>v || 'N/A'\<close> on an optional string: absent and empty are both falsy.\<close>

definition or_NA :: "string option \<Rightarrow> string" where
  "or_NA v = (case v of None \<Rightarrow> ''N/A'' | Some s \<Rightarrow> if s = [] then ''N/A'' else s)"

record table_row =
  row_class :: "string option"
  row_date :: "string option"
  row_description :: string
  row_amount :: string

text \<open>
  The rendered detail view, one field for each value the component prints;
  \<open>transactions_table = None\<close> is the paragraph shown in place of the table.
\<close>

record results_view =
  heading :: string
  card_number_value :: string
  statement_date_value :: string
  total_amount_due_value :: string
  payment_due_date_value :: string
  credit_limit_value :: string
  available_credit_value :: string
  minimum_amount_due_value :: string
  transactions_table :: "table_row list option"

definition ResultsDisplay :: "statement option \<Rightarrow> results_view option" where
  "ResultsDisplay data =
     (case data of
        None \<Rightarrow> None
      | Some d \<Rightarrow> Some
          \<lparr>heading = (case bank_name d of None \<Rightarrow> [] | Some b \<Rightarrow> b) @ '' Statement'',
           card_number_value = or_NA (card_number d),
           statement_date_value = or_NA (statement_date d),
           total_amount_due_value = formatCurrency (total_amount_due d),
           payment_due_date_value = or_NA (payment_due_date d),
           credit_limit_value = formatCurrency (credit_limit d),
           available_credit_value = formatCurrency (available_credit d),
           minimum_amount_due_value = formatCurrency (minimum_amount_due d),
           transactions_table =
             (case transactions d of
                None \<Rightarrow> None
              | Some txs \<Rightarrow>
                  if length txs > 0
                  then Some (map (\<lambda>txn. \<lparr>row_class = txn_type txn, row_date = date txn,
                                            row_description = description txn,
                                            row_amount = formatCurrency (Number (amount txn))\<rparr>) txs)
                  else None)\<rparr>)"

section \<open>App: the form state and the submit handler\<close>

datatype upload = File string

record app_state =
  bank :: string
  file' :: "upload option"
  parsedData :: "statement option"
  isLoading :: bool
  error :: string

record form_data =
  form_bank :: string
  form_file :: upload

text \<open>
  What the awaited calls do is the handler's second input: \<open>fetch\<close> rejects with a
  message, or resolves with a response whose \<open>json()\<close> throws or yields an object, of
  which the handler reads the \<open>error\<close> property or stores the whole as the statement.
\<close>

datatype json_result = JsonThrows string | JsonBody "string option" "statement option"

datatype fetch_result = Rejects string | Resolves bool string json_result

text \<open>The handler's effects in the order it performs them.\<close>

datatype effect =
    SetError string
  | SetIsLoading bool
  | SetParsedData "statement option"
  | Fetch string form_data

definition apiUrl :: string where
  "apiUrl = ''https://credit-card-statement-parser.onrender.com/parse-statement/''"

text \<open>\<open>err.message || 'An unexpected error occurred.'\<close>\<close>

definition catch_message :: "string \<Rightarrow> string" where
  "catch_message m = (if m = [] then ''An unexpected error occurred.'' else m)"

definition handleSubmit :: "app_state \<Rightarrow> fetch_result \<Rightarrow> effect list" where
  "handleSubmit st outcome =
     (case file' st of
        None \<Rightarrow> [SetError ''Please select a PDF file to upload.'']
      | Some f \<Rightarrow>
          [SetIsLoading True, SetParsedData None, SetError '''',
           Fetch apiUrl \<lparr>form_bank = bank st, form_file = f\<rparr>] @
          (case outcome of
             Rejects m \<Rightarrow> [SetError (catch_message m)]
           | Resolves ok statusText js \<Rightarrow>
               (case js of
                  JsonThrows m \<Rightarrow> [SetError (catch_message m)]
                | JsonBody err d \<Rightarrow>
                    if \<not> ok
                    then [SetError (catch_message
                            (case err of
                               None \<Rightarrow> ''API Error: '' @ statusText
                             | Some e \<Rightarrow> if e = [] then ''API Error: '' @ statusText else e))]
                    else [SetParsedData d])) @
          [SetIsLoading False])"

fun apply_effect :: "app_state \<Rightarrow> effect \<Rightarrow> app_state" where
  "apply_effect st (SetError m) = st\<lparr>error := m\<rparr>"
| "apply_effect st (SetIsLoading b) = st\<lparr>isLoading := b\<rparr>"
| "apply_effect st (SetParsedData d) = st\<lparr>parsedData := d\<rparr>"
| "apply_effect st (Fetch url body) = st"

definition after_submit :: "app_state \<Rightarrow> fetch_result \<Rightarrow> app_state" where
  "after_submit st outcome = foldl apply_effect st (handleSubmit st outcome)"

record app_view =
  submit_disabled :: bool
  submit_label :: string
  loading_shown :: bool
  error_shown :: "string option"
  results_shown :: "(results_view option \<times> donut_view) option"

definition App_view :: "app_state \<Rightarrow> app_view" where
  "App_view st =
     \<lparr>submit_disabled = isLoading st,
      submit_label = (if isLoading st then ''Parsing...'' else ''Parse Statement''),
      loading_shown = isLoading st,
      error_shown = (if error st \<noteq> [] then Some (error st) else None),
      results_shown =
        (case parsedData st of
           None \<Rightarrow> None
         | Some d \<Rightarrow> Some (ResultsDisplay (Some d), DonutAnalytics (Some d)))\<rparr>"

text \<open>The state the component starts in, from its \<open>useState\<close> calls.\<close>

definition initial_state :: app_state where
  "initial_state = \<lparr>bank = ''axis'', file' = None, parsedData = None, isLoading = False, error = []\<rparr>"

section \<open>Example inputs\<close>

text \<open>
  The transaction lists that the specification's examples use, and a statement around a
  transaction list with some of the numeric fields absent.
\<close>

definition six_debits :: "transaction list" where
  "six_debits =
     [\<lparr>date = None, description = ''a'', amount = 100, txn_type = Some ''debit''\<rparr>,
      \<lparr>date = None, description = ''b'', amount = 200, txn_type = Some ''debit''\<rparr>,
      \<lparr>date = None, description = ''c'', amount = 300, txn_type = Some ''debit''\<rparr>,
      \<lparr>date = None, description = ''d'', amount = 400, txn_type = Some ''debit''\<rparr>,
      \<lparr>date = None, description = ''e'', amount = 500, txn_type = Some ''debit''\<rparr>,
      \<lparr>date = None, description = ''f'', amount = 600, txn_type = Some ''debit''\<rparr>]"


definition one_credit :: "transaction list" where
  "one_credit = [\<lparr>date = None, description = ''c'', amount = 200, txn_type = Some ''credit''\<rparr>]"


definition statement_of :: "transaction list \<Rightarrow> statement" where
  "statement_of txs =
     \<lparr>bank_name = Some ''Axis Bank'', card_number = None, statement_date = None,
      payment_due_date = None, credit_limit = Null, total_amount_due = Number 0,
      minimum_amount_due = Undefined, available_credit = Number 250000,
      transactions = Some txs\<rparr>"

section \<open>Properties of the sort\<close>

lemma mset_insert_by: "mset (insert_by cmp x xs) = add_mset x (mset xs)"
  by (induction xs) simp_all

lemma mset_sort_by: "mset (sort_by cmp xs) = mset xs"
  by (induction xs) (simp_all add: sort_by_def mset_insert_by)

lemma length_sort_by: "length (sort_by cmp xs) = length xs"
  using mset_sort_by [of cmp xs] by (metis size_mset)

lemma set_insert_by: "set (insert_by cmp x xs) = insert x (set xs)"
  by (induction xs) auto

lemma sorted_insert_by_amount:
  "sorted_wrt (\<lambda>a b. amount b \<le> amount a) xs \<Longrightarrow>
   sorted_wrt (\<lambda>a b. amount b \<le> amount a) (insert_by (\<lambda>a b. amount b - amount a) x xs)"
  by (induction xs) (auto simp: set_insert_by)

lemma sorted_debitTransactions:
  "sorted_wrt (\<lambda>a b. amount b \<le> amount a) (debitTransactions txs)"
proof -
  have "sorted_wrt (\<lambda>a b. amount b \<le> amount a) (sort_by (\<lambda>a b. amount b - amount a) ys)" for ys
    by (induction ys) (simp_all add: sort_by_def sorted_insert_by_amount)
  then show ?thesis by (simp add: debitTransactions_def)
qed

lemma mset_debitTransactions:
  "mset (debitTransactions txs) = filter_mset (\<lambda>t. txn_type t = Some ''debit'') (mset txs)"
  by (simp add: debitTransactions_def mset_sort_by)

lemma foldl_amount_sum: "foldl (\<lambda>sum t. sum + amount t) a xs = a + sum_list (map amount xs)"
  by (induction xs arbitrary: a) simp_all


section \<open>The aggregation\<close>


lemma totalSpent_sum: "totalSpent ds = sum_list (map amount ds)"
  by (simp add: totalSpent_def foldl_amount_sum)





text \<open>
  The amounts of the sorted debit list are the debit amounts in descending order, so they
  do not depend on the order of the input.
\<close>

lemma sorted_amounts:
  "map amount (debitTransactions txs) =
   rev (sort (map amount (filter (\<lambda>t. txn_type t = Some ''debit'') txs)))"
proof -
  let ?l = "map amount (debitTransactions txs)"
  have "sorted_wrt (\<lambda>a b. b \<le> a) ?l"
    using sorted_debitTransactions [of txs] by (simp add: sorted_wrt_map)
  then have s: "sorted (rev ?l)" by (simp add: sorted_wrt_rev)
  have "mset (rev ?l) = mset (map amount (filter (\<lambda>t. txn_type t = Some ''debit'') txs))"
    by (simp add: mset_debitTransactions)
  then have "sort (map amount (filter (\<lambda>t. txn_type t = Some ''debit'') txs)) = rev ?l"
    using s by (rule properties_for_sort)
  then show ?thesis by simp
qed






text \<open>
  C5. Reordering the transaction list does not change the total: two lists with the same
  entries, each as often in one as in the other, give the same total of the sorted debit
  list.
\<close>

theorem total_invariant_under_reordering:
  assumes "mset txs' = mset txs"
  shows "totalSpent (debitTransactions txs') = totalSpent (debitTransactions txs)"
proof -
  let ?P = "\<lambda>t. txn_type t = Some ''debit''"
  have "sort (map amount (filter ?P txs)) = sort (map amount (filter ?P txs'))"
    by (rule properties_for_sort) (simp_all add: assms)
  then have "map amount (debitTransactions txs') = map amount (debitTransactions txs)"
    by (simp add: sorted_amounts)
  then show ?thesis by (simp add: totalSpent_sum)
qed

theorem total_invariant_under_reordering_witness:
  "totalSpent (debitTransactions (rev six_debits @ one_credit)) =
   totalSpent (debitTransactions (one_credit @ six_debits))"
proof -
  have "mset (rev six_debits @ one_credit) = mset (one_credit @ six_debits)" by simp
  then show ?thesis by (rule total_invariant_under_reordering)
qed

text \<open>
  C4, as the component has it. A statement whose transaction list has no debit entry
  never reaches the grouping and never yields a chart: when the list is not empty the
  component returns the message that no spending transactions were found, and when the
  list is empty it returns \<open>null\<close>, which renders nothing.
\<close>

theorem no_debits_short_circuit:
  assumes "transactions d = Some txs" and "filter (\<lambda>t. txn_type t = Some ''debit'') txs = []"
  shows "DonutAnalytics (Some d) = (if txs = [] then RendersNull else NoSpendingMessage)"
  using assms by (simp add: DonutAnalytics_def debitTransactions_def sort_by_def)

theorem no_debits_short_circuit_witness:
  "DonutAnalytics (Some (statement_of one_credit)) = NoSpendingMessage \<and>
   DonutAnalytics (Some (statement_of [])) = RendersNull"
proof -
  have t1: "transactions (statement_of one_credit) = Some one_credit"
    and t0: "transactions (statement_of []) = Some []"
    by (simp_all add: statement_of_def)
  have f1: "filter (\<lambda>t. txn_type t = Some ''debit'') one_credit = []"
    by (simp add: one_credit_def)
  have f0: "filter (\<lambda>t. txn_type t = Some ''debit'') [] = []" by simp
  have n1: "one_credit \<noteq> []" by (simp add: one_credit_def)
  show ?thesis
    using no_debits_short_circuit [OF t1 f1] no_debits_short_circuit [OF t0 f0] n1 by simp
qed

text \<open>
  C4 as the specification words it, with the empty list ending in the explicit
  no-spending state, fails: on the empty transaction list the component returns \<open>null\<close>
  and not the message.
\<close>

theorem empty_list_renders_null:
  "DonutAnalytics (Some (statement_of [])) \<noteq> NoSpendingMessage"
  by (simp add: DonutAnalytics_def statement_of_def)

section \<open>The currency helper\<close>

text \<open>
  C6. \<open>formatCurrency\<close> on \<open>null\<close> and on \<open>undefined\<close> returns the placeholder \<open>N/A\<close>,
  which is neither \<open>0\<close> nor the rupee rendering of zero; the function is total, so no
  input raises. The detail view of a statement whose credit limit is \<open>null\<close> shows the
  placeholder as the credit limit.
\<close>

theorem formatCurrency_null:
  "formatCurrency Null = ''N/A'' \<and> formatCurrency Undefined = ''N/A'' \<and>
   formatCurrency Null \<notin> {''0'', rupee @ ''0.00''} \<and>
   formatCurrency Undefined \<notin> {''0'', rupee @ ''0.00''} \<and>
   (\<exists>v. ResultsDisplay (Some (d\<lparr>credit_limit := Null\<rparr>)) = Some v \<and>
        credit_limit_value v = ''N/A'')"
  by (simp add: formatCurrency_def ResultsDisplay_def rupee_def)

text \<open>
  C10. \<open>formatCurrency\<close> on the number 0 returns the rupee sign followed by \<open>0.00\<close>, and
  the placeholder is returned for \<open>null\<close> and \<open>undefined\<close> only.
\<close>

theorem formatCurrency_zero:
  "formatCurrency (Number 0) = rupee @ ''0.00'' \<and>
   (formatCurrency v = ''N/A'' \<longleftrightarrow> v = Null \<or> v = Undefined)"
proof -
  have "formatCurrency (Number 0) = rupee @ ''0.00''" by code_simp
  moreover have "formatCurrency v = ''N/A'' \<longleftrightarrow> v = Null \<or> v = Undefined"
    by (cases v) (simp_all add: formatCurrency_def rupee_def)
  ultimately show ?thesis by simp
qed

section \<open>The submit handler\<close>

text \<open>
  C7. A submit while no file is selected performs one effect only, setting the
  validation message: no request is sent and the loading flag is not written, so the flag
  keeps its value, the view shows the message, and the view shows the loading notice only
  if it did before.
\<close>

theorem submit_without_file:
  assumes "file' st = None"
  shows "handleSubmit st outcome = [SetError ''Please select a PDF file to upload.''] \<and>
         (\<forall>url body. Fetch url body \<notin> set (handleSubmit st outcome)) \<and>
         (\<forall>b. SetIsLoading b \<notin> set (handleSubmit st outcome)) \<and>
         isLoading (after_submit st outcome) = isLoading st \<and>
         error (after_submit st outcome) = ''Please select a PDF file to upload.'' \<and>
         error_shown (App_view (after_submit st outcome)) =
           Some ''Please select a PDF file to upload.'' \<and>
         loading_shown (App_view (after_submit st outcome)) = isLoading st"
  using assms by (simp add: handleSubmit_def after_submit_def App_view_def)

theorem submit_without_file_witness:
  "handleSubmit initial_state (Rejects ''Failed to fetch'') =
     [SetError ''Please select a PDF file to upload.''] \<and>
   isLoading (after_submit initial_state (Rejects ''Failed to fetch'')) = False \<and>
   error (after_submit initial_state (Rejects ''Failed to fetch'')) =
     ''Please select a PDF file to upload.''"
proof -
  have h: "file' initial_state = None" by (simp add: initial_state_def)
  have l: "isLoading initial_state = False" by (simp add: initial_state_def)
  show ?thesis using submit_without_file [OF h, of "Rejects ''Failed to fetch''"] l by simp
qed

text \<open>
  C8. A submit while no file is selected changes the error field only: the stored
  result is the one stored before, and when there is one the view shows both the detail
  view and the analytics of that result together with the validation message.
\<close>

theorem submit_without_file_keeps_result:
  assumes "file' st = None"
  shows "after_submit st outcome = st\<lparr>error := ''Please select a PDF file to upload.''\<rparr> \<and>
         parsedData (after_submit st outcome) = parsedData st \<and>
         (\<forall>d. parsedData st = Some d \<longrightarrow>
            results_shown (App_view (after_submit st outcome)) =
              Some (ResultsDisplay (Some d), DonutAnalytics (Some d)) \<and>
            error_shown (App_view (after_submit st outcome)) =
              Some ''Please select a PDF file to upload.'')"
  using assms by (simp add: handleSubmit_def after_submit_def App_view_def)

theorem submit_without_file_keeps_result_witness:
  "parsedData (after_submit (initial_state\<lparr>parsedData := Some (statement_of six_debits)\<rparr>)
      (Resolves True ''OK'' (JsonBody None None))) = Some (statement_of six_debits) \<and>
   results_shown (App_view (after_submit (initial_state\<lparr>parsedData := Some (statement_of six_debits)\<rparr>)
      (Resolves True ''OK'' (JsonBody None None)))) =
     Some (ResultsDisplay (Some (statement_of six_debits)),
           DonutAnalytics (Some (statement_of six_debits))) \<and>
   error_shown (App_view (after_submit (initial_state\<lparr>parsedData := Some (statement_of six_debits)\<rparr>)
      (Resolves True ''OK'' (JsonBody None None)))) =
     Some ''Please select a PDF file to upload.''"
proof -
  let ?st = "initial_state\<lparr>parsedData := Some (statement_of six_debits)\<rparr>"
  have h: "file' ?st = None" by (simp add: initial_state_def)
  have p: "parsedData ?st = Some (statement_of six_debits)" by simp
  note kept = submit_without_file_keeps_result [OF h, of "Resolves True ''OK'' (JsonBody None None)"]
  from kept have "parsedData (after_submit ?st (Resolves True ''OK'' (JsonBody None None))) =
      parsedData ?st"
    by (rule conjunct2 [THEN conjunct1])
  then have stored: "parsedData (after_submit ?st (Resolves True ''OK'' (JsonBody None None))) =
      Some (statement_of six_debits)"
    by (simp only: p)
  from kept p have "results_shown (App_view (after_submit ?st (Resolves True ''OK'' (JsonBody None None)))) =
        Some (ResultsDisplay (Some (statement_of six_debits)),
              DonutAnalytics (Some (statement_of six_debits))) \<and>
      error_shown (App_view (after_submit ?st (Resolves True ''OK'' (JsonBody None None)))) =
        Some ''Please select a PDF file to upload.''"
    by blast
  with stored show ?thesis by (rule conjI)
qed

section \<open>The legend percentage\<close>














section \<open>The arrays in the store\<close>

text \<open>
  C9. Running the aggregation on a store leaves every array that was in the store
  before as it was, the transactions array among them: the sorted array and the chart
  items are new arrays, and they hold what the functions above compute from the
  transactions array.
\<close>

theorem aggregation_leaves_input_unchanged:
  assumes "txs < length h" and "r < length h"
  shows "(case aggregate_in_store h txs of
            (h', debits, chart) \<Rightarrow>
              h' ! r = h ! r \<and> length h \<le> debits \<and> length h \<le> chart \<and>
              h' ! debits = debitTransactions (h ! txs) \<and>
              h' ! chart = chartItems (debitTransactions (h ! txs)))"
  using assms
  by (simp add: aggregate_in_store_def array_filter_def array_sort_def array_slice_def
        array_spread_def array_push_def alloc_def Let_def nth_append debitTransactions_def
        chartItems_def topItems_def otherItems_def otherItemsSum_def length_sort_by)

theorem aggregation_leaves_input_unchanged_witness:
  "(case aggregate_in_store [one_credit @ six_debits] 0 of
      (h', debits, chart) \<Rightarrow>
        h' ! 0 = [one_credit @ six_debits] ! 0 \<and> length [one_credit @ six_debits] \<le> debits \<and>
        length [one_credit @ six_debits] \<le> chart \<and>
        h' ! debits = debitTransactions ([one_credit @ six_debits] ! 0) \<and>
        h' ! chart = chartItems (debitTransactions ([one_credit @ six_debits] ! 0)))"
proof -
  have v: "0 < length [one_credit @ six_debits]" by simp
  show ?thesis by (rule aggregation_leaves_input_unchanged [OF v v])
qed

end
